theory Spec2Isabelle
  imports Complex_Main
begin

section \<open>Numbers of the program\<close>

text \<open>
  The sketch computes with C++ \<open>double\<close> and \<open>int\<close>. A \<open>double\<close> is modelled as
  an exact real number or one of the three special values that a division by zero
  produces and propagates: \<open>+inf\<close>, \<open>-inf\<close> and NaN. Rounding, overflow, underflow
  and the sign of zero are not modelled: finite values are computed exactly, and a
  decimal literal such as \<open>0.1\<close> stands for the decimal number. Every zero divisor
  of the program is a square root or a product of square roots, so it is the
  positive zero, and the quotient by it takes the sign of the dividend.
  The \<open>int\<close> values of the program (screen coordinates, effect sizes and lifetimes)
  stay far from the 32-bit range and are modelled as \<open>int\<close>.
\<close>

datatype double = Fin real | PInf | MInf | NaN

definition signed_inf :: "real \<Rightarrow> double" where
  "signed_inf s = (if 0 < s then PInf else if s < 0 then MInf else NaN)"

fun dneg :: "double \<Rightarrow> double" where
  "dneg (Fin a) = Fin (- a)"
| "dneg PInf = MInf"
| "dneg MInf = PInf"
| "dneg NaN = NaN"

fun dadd :: "double \<Rightarrow> double \<Rightarrow> double" where
  "dadd (Fin a) (Fin b) = Fin (a + b)"
| "dadd (Fin a) PInf = PInf"
| "dadd (Fin a) MInf = MInf"
| "dadd PInf (Fin b) = PInf"
| "dadd MInf (Fin b) = MInf"
| "dadd PInf PInf = PInf"
| "dadd MInf MInf = MInf"
| "dadd PInf MInf = NaN"
| "dadd MInf PInf = NaN"
| "dadd NaN b = NaN"
| "dadd a NaN = NaN"

definition dsub :: "double \<Rightarrow> double \<Rightarrow> double" where
  "dsub a b = dadd a (dneg b)"

fun dmul :: "double \<Rightarrow> double \<Rightarrow> double" where
  "dmul (Fin a) (Fin b) = Fin (a * b)"
| "dmul (Fin a) PInf = signed_inf a"
| "dmul (Fin a) MInf = signed_inf (- a)"
| "dmul PInf (Fin b) = signed_inf b"
| "dmul MInf (Fin b) = signed_inf (- b)"
| "dmul PInf PInf = PInf"
| "dmul MInf MInf = PInf"
| "dmul PInf MInf = MInf"
| "dmul MInf PInf = MInf"
| "dmul NaN b = NaN"
| "dmul a NaN = NaN"

fun ddiv :: "double \<Rightarrow> double \<Rightarrow> double" where
  "ddiv (Fin a) (Fin b) = (if b = 0 then signed_inf a else Fin (a / b))"
| "ddiv (Fin a) PInf = Fin 0"
| "ddiv (Fin a) MInf = Fin 0"
| "ddiv PInf (Fin b) = (if b < 0 then MInf else PInf)"
| "ddiv MInf (Fin b) = (if b < 0 then PInf else MInf)"
| "ddiv PInf PInf = NaN"
| "ddiv MInf MInf = NaN"
| "ddiv PInf MInf = NaN"
| "ddiv MInf PInf = NaN"
| "ddiv NaN b = NaN"
| "ddiv a NaN = NaN"

fun dsqrt :: "double \<Rightarrow> double" where
  "dsqrt (Fin a) = (if a < 0 then NaN else Fin (sqrt a))"
| "dsqrt PInf = PInf"
| "dsqrt MInf = NaN"
| "dsqrt NaN = NaN"

text \<open>\<open>std::pow(z, 2)\<close> is the square of \<open>z\<close>, also at the special values.\<close>

definition dpow2 :: "double \<Rightarrow> double" where
  "dpow2 z = dmul z z"

fun dcos :: "double \<Rightarrow> double" where
  "dcos (Fin a) = Fin (cos a)"
| "dcos PInf = NaN"
| "dcos MInf = NaN"
| "dcos NaN = NaN"

fun dsin :: "double \<Rightarrow> double" where
  "dsin (Fin a) = Fin (sin a)"
| "dsin PInf = NaN"
| "dsin MInf = NaN"
| "dsin NaN = NaN"

text \<open>Comparisons: every comparison with NaN is false.\<close>

fun dle :: "double \<Rightarrow> double \<Rightarrow> bool" where
  "dle (Fin a) (Fin b) = (a \<le> b)"
| "dle (Fin a) PInf = True"
| "dle (Fin a) MInf = False"
| "dle PInf (Fin b) = False"
| "dle MInf (Fin b) = True"
| "dle PInf PInf = True"
| "dle MInf MInf = True"
| "dle PInf MInf = False"
| "dle MInf PInf = True"
| "dle NaN b = False"
| "dle a NaN = False"

fun dlt :: "double \<Rightarrow> double \<Rightarrow> bool" where
  "dlt (Fin a) (Fin b) = (a < b)"
| "dlt (Fin a) PInf = True"
| "dlt (Fin a) MInf = False"
| "dlt PInf (Fin b) = False"
| "dlt MInf (Fin b) = True"
| "dlt PInf PInf = False"
| "dlt MInf MInf = False"
| "dlt PInf MInf = False"
| "dlt MInf PInf = True"
| "dlt NaN b = False"
| "dlt a NaN = False"

definition dgt :: "double \<Rightarrow> double \<Rightarrow> bool" where
  "dgt a b = dlt b a"

text \<open>Conversion of an \<open>int\<close> to \<open>double\<close>.\<close>

definition d_of_int :: "int \<Rightarrow> double" where
  "d_of_int i = Fin (of_int i)"



section \<open>Constants\<close>

definition EARTH_RADIUS :: int where "EARTH_RADIUS = 15"

definition MOON_RADIUS :: int where "MOON_RADIUS = 5"

definition MOON_DISTANCE :: int where "MOON_DISTANCE = 100"

definition MOON_ANGULAR_VELOCITY :: double where "MOON_ANGULAR_VELOCITY = Fin (5 / 1000)"

definition TRAIL_LENGTH :: int where "TRAIL_LENGTH = 50"

definition MU_EARTH :: double where "MU_EARTH = Fin 2500"

definition MU_MOON :: double where "MU_MOON = Fin 250"

definition WIDTH :: int where "WIDTH = 320"

definition HEIGHT :: int where "HEIGHT = 240"

datatype colour = BOUND_ORBIT_COLOR | ESCAPE_ORBIT_COLOR

section \<open>Vector\<close>

record Vector =
  vec_x :: double
  vec_y :: double

definition addTo :: "Vector \<Rightarrow> Vector \<Rightarrow> Vector" where
  "addTo this vec = this\<lparr>vec_x := dadd (vec_x this) (vec_x vec),
                         vec_y := dadd (vec_y this) (vec_y vec)\<rparr>"

definition mag :: "Vector \<Rightarrow> double" where
  "mag this = dsqrt (dadd (dmul (vec_x this) (vec_x this)) (dmul (vec_y this) (vec_y this)))"

definition Vector_add :: "Vector \<Rightarrow> Vector \<Rightarrow> Vector" where
  "Vector_add vec1 vec2 =
     \<lparr>vec_x = dadd (vec_x vec1) (vec_x vec2), vec_y = dadd (vec_y vec1) (vec_y vec2)\<rparr>"

definition Vector_sub :: "Vector \<Rightarrow> Vector \<Rightarrow> Vector" where
  "Vector_sub vec1 vec2 =
     \<lparr>vec_x = dsub (vec_x vec1) (vec_x vec2), vec_y = dsub (vec_y vec1) (vec_y vec2)\<rparr>"

definition Vector_mult :: "Vector \<Rightarrow> double \<Rightarrow> Vector" where
  "Vector_mult vec scalar =
     \<lparr>vec_x = dmul (vec_x vec) scalar, vec_y = dmul (vec_y vec) scalar\<rparr>"

section \<open>Entities and the global state\<close>

record SparkleEffect =
  sp_x :: double
  sp_y :: double
  sp_life :: int

record ExplosionEffect =
  ex_x :: double
  ex_y :: double
  ex_size :: int
  ex_life :: int
  ex_alpha :: double

record Spacecraft =
  position :: Vector
  velocity :: Vector
  trail :: "Vector list"
  energy :: double
  prevEnergy :: double
  sparkle :: bool

text \<open>The global variables and containers of the sketch.\<close>

record world =
  moonAngle :: double
  moonX :: double
  moonY :: double
  moonTrail :: "Vector list"
  spacecrafts :: "Spacecraft list"
  sparkleEffects :: "SparkleEffect list"
  explosionEffects :: "ExplosionEffect list"

text \<open>The constructor \<open>Spacecraft(x, y, vx, vy)\<close>.\<close>

definition new_Spacecraft :: "double \<Rightarrow> double \<Rightarrow> double \<Rightarrow> double \<Rightarrow> Spacecraft" where
  "new_Spacecraft x y vx vy =
     \<lparr>position = \<lparr>vec_x = x, vec_y = y\<rparr>, velocity = \<lparr>vec_x = vx, vec_y = vy\<rparr>,
      trail = [], energy = Fin 0, prevEnergy = Fin 0, sparkle = False\<rparr>"

section \<open>Spacecraft\<close>

text \<open>
  The two distances that \<open>Spacecraft::update\<close> computes into the local variables
  \<open>distToEarth\<close> and \<open>distToMoon\<close>; the first expression is also the one of
  \<open>rE\<close> further down.
\<close>

definition distToEarth :: "Vector \<Rightarrow> double" where
  "distToEarth p =
     dsqrt (dadd (dpow2 (dsub (vec_x p) (d_of_int (WIDTH div 2))))
                 (dpow2 (dsub (vec_y p) (d_of_int (HEIGHT div 2)))))"

definition distToMoon :: "world \<Rightarrow> Vector \<Rightarrow> double" where
  "distToMoon w p =
     dsqrt (dadd (dpow2 (dsub (vec_x p) (moonX w))) (dpow2 (dsub (vec_y p) (moonY w))))"

text \<open>\<open>Spacecraft::calculateAcceleration\<close>: gravity of the Earth and of the Moon.\<close>

definition calculateAcceleration :: "world \<Rightarrow> Vector \<Rightarrow> Vector" where
  "calculateAcceleration w pos =
     (let rEarth = \<lparr>vec_x = dsub (d_of_int (WIDTH div 2)) (vec_x pos),
                    vec_y = dsub (d_of_int (HEIGHT div 2)) (vec_y pos)\<rparr>;
          rEarthMag = mag rEarth;
          aEarth = Vector_mult rEarth
                     (ddiv MU_EARTH (dmul (dmul rEarthMag rEarthMag) rEarthMag));
          rMoon = \<lparr>vec_x = dsub (moonX w) (vec_x pos), vec_y = dsub (moonY w) (vec_y pos)\<rparr>;
          rMoonMag = mag rMoon;
          aMoon = Vector_mult rMoon
                    (ddiv MU_MOON (dmul (dmul rMoonMag rMoonMag) rMoonMag))
      in Vector_add aEarth aMoon)"

text \<open>
  \<open>Spacecraft::update\<close>. The method changes the spacecraft and appends to the two
  global effect vectors; the model returns the returned flag, the spacecraft and the
  globals.
\<close>

definition update :: "world \<Rightarrow> Spacecraft \<Rightarrow> bool \<times> Spacecraft \<times> world" where
  "update w c =
     (if dle (distToEarth (position c)) (d_of_int EARTH_RADIUS) then
        (True, c,
         w\<lparr>explosionEffects := explosionEffects w @
             [\<lparr>ex_x = vec_x (position c), ex_y = vec_y (position c),
               ex_size = 15, ex_life = 30, ex_alpha = Fin 255\<rparr>]\<rparr>)
      else if dle (distToMoon w (position c)) (d_of_int MOON_RADIUS) then
        (True, c,
         w\<lparr>explosionEffects := explosionEffects w @
             [\<lparr>ex_x = vec_x (position c), ex_y = vec_y (position c),
               ex_size = 10, ex_life = 30, ex_alpha = Fin 255\<rparr>]\<rparr>)
      else
        (let c1 = c\<lparr>prevEnergy := energy c\<rparr>;
             k1v = calculateAcceleration w (position c1);
             k1r = Vector_mult (velocity c1) (Fin 1);
             tempPos = Vector_add (position c1) (Vector_mult k1r (Fin (1 / 2)));
             tempVel = Vector_add (velocity c1) (Vector_mult k1v (Fin (1 / 2)));
             k2v = calculateAcceleration w tempPos;
             k2r = Vector_mult tempVel (Fin 1);
             tempPos = Vector_add (position c1) (Vector_mult k2r (Fin (1 / 2)));
             tempVel = Vector_add (velocity c1) (Vector_mult k2v (Fin (1 / 2)));
             k3v = calculateAcceleration w tempPos;
             k3r = Vector_mult tempVel (Fin 1);
             tempPos = Vector_add (position c1) k3r;
             tempVel = Vector_add (velocity c1) k3v;
             k4v = calculateAcceleration w tempPos;
             k4r = Vector_mult tempVel (Fin 1);
             dv = Vector_mult
                    (Vector_add (Vector_add k1v (Vector_mult k2v (Fin 2)))
                                (Vector_add (Vector_mult k3v (Fin 2)) k4v))
                    (ddiv (Fin 1) (Fin 6));
             dr = Vector_mult
                    (Vector_add (Vector_add k1r (Vector_mult k2r (Fin 2)))
                                (Vector_add (Vector_mult k3r (Fin 2)) k4r))
                    (ddiv (Fin 1) (Fin 6));
             c2 = c1\<lparr>velocity := addTo (velocity c1) dv\<rparr>;
             c3 = c2\<lparr>position := addTo (position c2) dr\<rparr>;
             pushed = trail c3 @ [\<lparr>vec_x = vec_x (position c3), vec_y = vec_y (position c3)\<rparr>];
             c4 = c3\<lparr>trail := (if int (length pushed) > TRAIL_LENGTH then tl pushed else pushed)\<rparr>;
             rE = distToEarth (position c4);
             v = mag (velocity c4);
             c5 = c4\<lparr>energy := dsub (dmul (dmul (Fin (1 / 2)) v) v) (ddiv MU_EARTH rE)\<rparr>;
             energyIncrease = dsub (energy c5) (prevEnergy c5)
         in if dgt energyIncrease (Fin (1 / 10)) then
              (False, c5\<lparr>sparkle := True\<rparr>,
               w\<lparr>sparkleEffects := sparkleEffects w @
                   [\<lparr>sp_x = vec_x (position c5), sp_y = vec_y (position c5), sp_life = 20\<rparr>]\<rparr>)
            else (False, c5\<lparr>sparkle := False\<rparr>, w)))"

text \<open>The colour that \<open>Spacecraft::draw\<close> chooses for the trail.\<close>

definition orbitColor :: "Spacecraft \<Rightarrow> colour" where
  "orbitColor c = (if dlt (energy c) (Fin 0) then BOUND_ORBIT_COLOR else ESCAPE_ORBIT_COLOR)"

section \<open>Moon and taps\<close>

definition updateMoonPosition :: "world \<Rightarrow> world" where
  "updateMoonPosition w =
     (let w1 = w\<lparr>moonX := dadd (d_of_int (WIDTH div 2))
                              (dmul (d_of_int MOON_DISTANCE) (dcos (moonAngle w)))\<rparr>;
          w2 = w1\<lparr>moonY := dadd (d_of_int (HEIGHT div 2))
                               (dmul (d_of_int MOON_DISTANCE) (dsin (moonAngle w1)))\<rparr>;
          pushed = moonTrail w2 @ [\<lparr>vec_x = moonX w2, vec_y = moonY w2\<rparr>]
      in w2\<lparr>moonTrail := (if length pushed > 360 then tl pushed else pushed)\<rparr>)"

text \<open>
  \<open>addSpacecraft(x, y)\<close>, called with the screen coordinates of a press; \<open>dEarth\<close>
  is its first local variable.
\<close>

definition dEarth :: "int \<Rightarrow> int \<Rightarrow> double" where
  "dEarth x y =
     dsqrt (dadd (dpow2 (d_of_int (x - WIDTH div 2))) (dpow2 (d_of_int (y - HEIGHT div 2))))"

definition addSpacecraft :: "int \<Rightarrow> int \<Rightarrow> world \<Rightarrow> world" where
  "addSpacecraft x y w =
     (if dlt (dEarth x y) (d_of_int EARTH_RADIUS) then
        w\<lparr>spacecrafts := [], sparkleEffects := []\<rparr>
      else
        (let dirX = d_of_int (x - WIDTH div 2);
             dirY = d_of_int (y - HEIGHT div 2);
             dirMag = dsqrt (dadd (dmul dirX dirX) (dmul dirY dirY));
             speed = dadd (Fin 1) (dmul (Fin 3) (ddiv dirMag (d_of_int (WIDTH div 2))));
             vx = dmul (ddiv dirY dirMag) speed;
             vy = dmul (ddiv (dneg dirX) dirMag) speed
         in w\<lparr>spacecrafts := spacecrafts w @
                [new_Spacecraft (d_of_int x) (d_of_int y) vx vy]\<rparr>))"

section \<open>The frame\<close>

text \<open>\<open>v.erase(v.begin() + i)\<close>.\<close>

definition erase_at :: "nat \<Rightarrow> 'a list \<Rightarrow> 'a list" where
  "erase_at i xs = take i xs @ drop (Suc i) xs"

text \<open>
  The three loops of \<open>loop()\<close> run the index from \<open>size - 1\<close> down to 0. In the
  models the first argument is the number of indices still to visit, so the loop
  is entered with the length of the vector and \<open>Suc i\<close> visits index \<open>i\<close>, which
  is below the length then (an erasure at \<open>i\<close> moves only the elements above it).
\<close>

fun spacecraft_loop :: "nat \<Rightarrow> world \<Rightarrow> world" where
  "spacecraft_loop 0 w = w"
| "spacecraft_loop (Suc i) w =
     (case update w (spacecrafts w ! i) of
        (removed, c', w') \<Rightarrow>
          spacecraft_loop i
            (if removed then w'\<lparr>spacecrafts := erase_at i (spacecrafts w')\<rparr>
             else w'\<lparr>spacecrafts := (spacecrafts w')[i := c']\<rparr>))"

fun explosion_loop :: "nat \<Rightarrow> ExplosionEffect list \<Rightarrow> ExplosionEffect list" where
  "explosion_loop 0 es = es"
| "explosion_loop (Suc i) es =
     (let es1 = es[i := (es ! i)\<lparr>ex_life := ex_life (es ! i) - 1\<rparr>];
          es2 = es1[i := (es1 ! i)\<lparr>ex_alpha :=
                   dmul (Fin 255) (ddiv (d_of_int (ex_life (es1 ! i))) (Fin 30))\<rparr>]
      in explosion_loop i (if ex_life (es2 ! i) \<le> 0 then erase_at i es2 else es2))"

fun sparkle_loop :: "nat \<Rightarrow> SparkleEffect list \<Rightarrow> SparkleEffect list" where
  "sparkle_loop 0 es = es"
| "sparkle_loop (Suc i) es =
     (let es1 = es[i := (es ! i)\<lparr>sp_life := sp_life (es ! i) - 1\<rparr>]
      in sparkle_loop i (if sp_life (es1 ! i) \<le> 0 then erase_at i es1 else es1))"

definition explosion_pass :: "ExplosionEffect list \<Rightarrow> ExplosionEffect list" where
  "explosion_pass es = explosion_loop (length es) es"

definition sparkle_pass :: "SparkleEffect list \<Rightarrow> SparkleEffect list" where
  "sparkle_pass es = sparkle_loop (length es) es"

text \<open>
  One frame of \<open>loop()\<close> past the 33 ms gate, up to the drawing: the press of this
  frame, if there is one, then the Moon, the spacecraft, the explosions and the
  sparkles.
\<close>

definition loop_body :: "(int \<times> int) option \<Rightarrow> world \<Rightarrow> world" where
  "loop_body touch w =
     (let w1 = (case touch of None \<Rightarrow> w | Some (x, y) \<Rightarrow> addSpacecraft x y w);
          w2 = w1\<lparr>moonAngle := dadd (moonAngle w1) MOON_ANGULAR_VELOCITY\<rparr>;
          w3 = updateMoonPosition w2;
          w4 = spacecraft_loop (length (spacecrafts w3)) w3;
          w5 = w4\<lparr>explosionEffects := explosion_pass (explosionEffects w4)\<rparr>
      in w5\<lparr>sparkleEffects := sparkle_pass (sparkleEffects w5)\<rparr>)"

text \<open>The globals after \<open>setup()\<close>.\<close>

definition after_setup :: world where
  "after_setup = updateMoonPosition
     \<lparr>moonAngle = Fin 0, moonX = Fin 0, moonY = Fin 0, moonTrail = [],
      spacecrafts = [], sparkleEffects = [], explosionEffects = []\<rparr>"


section \<open>The specification's mathematics\<close>

text \<open>
  Definitions that follow the words of the specification, for comparison with the
  program. The gravity field: for each body the vector \<open>r_vec\<close> from the position
  to the body's centre, and the pull \<open>\<mu> \<cdot> r_vec / |r_vec|\<^sup>3\<close>; the field is the sum
  of the pulls of the Earth and of the Moon.
\<close>

definition earth_centre :: Vector where
  "earth_centre = \<lparr>vec_x = d_of_int (WIDTH div 2), vec_y = d_of_int (HEIGHT div 2)\<rparr>"

definition moon_centre :: "world \<Rightarrow> Vector" where
  "moon_centre w = \<lparr>vec_x = moonX w, vec_y = moonY w\<rparr>"

definition spec_pull :: "double \<Rightarrow> Vector \<Rightarrow> Vector \<Rightarrow> Vector" where
  "spec_pull mu body pos =
     (let r_vec = Vector_sub body pos;
          r = mag r_vec;
          r3 = dmul r (dmul r r)
      in \<lparr>vec_x = ddiv (dmul mu (vec_x r_vec)) r3, vec_y = ddiv (dmul mu (vec_y r_vec)) r3\<rparr>)"

definition spec_acceleration :: "world \<Rightarrow> Vector \<Rightarrow> Vector" where
  "spec_acceleration w pos =
     Vector_add (spec_pull MU_EARTH earth_centre pos) (spec_pull MU_MOON (moon_centre w) pos)"

text \<open>
  The classical Runge-Kutta method of order four for \<open>s' = f s\<close> with step \<open>dt\<close>, on
  states that pair a position with a velocity, and the system \<open>dr/dt = v\<close>,
  \<open>dv/dt = a(r)\<close>.
\<close>

type_synonym phase = "Vector \<times> Vector"

definition ph_add :: "phase \<Rightarrow> phase \<Rightarrow> phase" where
  "ph_add a b = (Vector_add (fst a) (fst b), Vector_add (snd a) (snd b))"

definition ph_scale :: "double \<Rightarrow> phase \<Rightarrow> phase" where
  "ph_scale s a =
     (\<lparr>vec_x = dmul s (vec_x (fst a)), vec_y = dmul s (vec_y (fst a))\<rparr>,
      \<lparr>vec_x = dmul s (vec_x (snd a)), vec_y = dmul s (vec_y (snd a))\<rparr>)"

definition spec_rk4 :: "(phase \<Rightarrow> phase) \<Rightarrow> double \<Rightarrow> phase \<Rightarrow> phase" where
  "spec_rk4 f dt s =
     (let k1 = f s;
          k2 = f (ph_add s (ph_scale (ddiv dt (Fin 2)) k1));
          k3 = f (ph_add s (ph_scale (ddiv dt (Fin 2)) k2));
          k4 = f (ph_add s (ph_scale dt k3))
      in ph_add s
           (ph_scale (ddiv dt (Fin 6))
              (ph_add (ph_add (ph_add k1 (ph_scale (Fin 2) k2)) (ph_scale (Fin 2) k3)) k4)))"

definition spec_motion :: "world \<Rightarrow> phase \<Rightarrow> phase" where
  "spec_motion w s = (snd s, spec_acceleration w (fst s))"

text \<open>
  The specific orbital energy about the Earth, \<open>E = \<onehalf>|v|\<^sup>2 - \<mu> / r\<close>, with the
  Earth's \<open>\<mu>\<close> and the distance \<open>r\<close> to the Earth's centre.
\<close>

definition spec_energy :: "Vector \<Rightarrow> Vector \<Rightarrow> double" where
  "spec_energy pos vel =
     dsub (dmul (Fin (1 / 2)) (dpow2 (mag vel)))
          (ddiv MU_EARTH (mag (Vector_sub pos earth_centre)))"

text \<open>
  The launch velocity of a press at \<open>(x, y)\<close>: the unit vector from the Earth's
  centre to the press, turned by a right angle and scaled by
  \<open>1 + 3 \<cdot> (distance / (WIDTH / 2))\<close>.
\<close>

definition rot90 :: "real \<times> real \<Rightarrow> real \<times> real" where
  "rot90 v = (snd v, - fst v)"

definition spec_launch_velocity :: "int \<Rightarrow> int \<Rightarrow> real \<times> real" where
  "spec_launch_velocity x y =
     (let dx = real_of_int x - real_of_int (WIDTH div 2);
          dy = real_of_int y - real_of_int (HEIGHT div 2);
          distance = sqrt (dx\<^sup>2 + dy\<^sup>2);
          tangent = rot90 (dx / distance, dy / distance);
          speed = 1 + 3 * (distance / real_of_int (WIDTH div 2))
      in (speed * fst tangent, speed * snd tangent))"


section \<open>Notions for the statements\<close>



text \<open>The caps of the trails, and a run of frames from the state after \<open>setup()\<close>.\<close>

definition trail_inv :: "world \<Rightarrow> bool" where
  "trail_inv w =
     (length (moonTrail w) \<le> 360 \<and>
      (\<forall>c \<in> set (spacecrafts w). int (length (trail c)) \<le> TRAIL_LENGTH))"

definition frames :: "(int \<times> int) option list \<Rightarrow> world \<Rightarrow> world" where
  "frames touches w = foldl (\<lambda>w touch. loop_body touch w) w touches"


section \<open>Sample inputs\<close>

text \<open>
  A state with the Moon to the right of the Earth at \<open>(260, 120)\<close>, and three
  spacecraft: one inside the Earth, one inside the Moon and one in free space.
\<close>

definition sample_world :: world where
  "sample_world =
     \<lparr>moonAngle = Fin 0, moonX = Fin 260, moonY = Fin 120, moonTrail = [],
      spacecrafts = [], sparkleEffects = [], explosionEffects = []\<rparr>"

definition craft_on_earth :: Spacecraft where
  "craft_on_earth = new_Spacecraft (Fin 170) (Fin 120) (Fin 0) (Fin 2)"

definition craft_on_moon :: Spacecraft where
  "craft_on_moon = new_Spacecraft (Fin 258) (Fin 121) (Fin 0) (Fin 2)"

definition craft_free :: Spacecraft where
  "craft_free = new_Spacecraft (Fin 200) (Fin 120) (Fin 0) (Fin (- 2))"

text \<open>A state with one spacecraft, one sparkle and one explosion.\<close>

definition busy_world :: world where
  "busy_world =
     \<lparr>moonAngle = Fin 0, moonX = Fin 260, moonY = Fin 120, moonTrail = [],
      spacecrafts = [new_Spacecraft (Fin 200) (Fin 120) (Fin 0) (Fin (- 2))],
      sparkleEffects = [\<lparr>sp_x = Fin 100, sp_y = Fin 50, sp_life = 7\<rparr>],
      explosionEffects =
        [\<lparr>ex_x = Fin 150, ex_y = Fin 120, ex_size = 15, ex_life = 12, ex_alpha = Fin 102\<rparr>]\<rparr>"

section \<open>Lemmas about the numbers\<close>

lemma sqrt_le_iff_sq: "0 \<le> b \<Longrightarrow> (sqrt a \<le> b) = (a \<le> b\<^sup>2)"
  by (metis abs_of_nonneg real_sqrt_abs real_sqrt_le_iff)

lemma sqrt_less_iff_sq: "0 \<le> b \<Longrightarrow> (sqrt a < b) = (a < b\<^sup>2)"
  by (metis abs_of_nonneg real_sqrt_abs real_sqrt_less_iff)

lemma dmul_one [simp]: "dmul x (Fin 1) = x"
  by (cases x) (simp_all add: signed_inf_def)

lemma dmul_one_left [simp]: "dmul (Fin 1) x = x"
  by (cases x) (simp_all add: signed_inf_def)

lemma dmul_commute: "dmul a b = dmul b a"
  by (cases a; cases b) (simp_all add: mult.commute)

lemma dadd_commute: "dadd a b = dadd b a"
  by (cases a; cases b) (simp_all add: add.commute)

lemma dadd_assoc: "dadd (dadd a b) c = dadd a (dadd b c)"
  by (cases a; cases b; cases c) (simp_all add: add.assoc)

lemma dmul_cube [simp]: "dmul (dmul a a) a = dmul a (dmul a a)"
  by (rule dmul_commute)

text \<open>
  The program scales the vector by the quotient \<open>\<mu> / r\<^sup>3\<close>; the specification
  divides the scaled vector. Both agree, also at the special values.
\<close>

lemma dmul_ddiv_pos:
  "0 < mu \<Longrightarrow> dmul r (ddiv (Fin mu) m) = ddiv (dmul (Fin mu) r) m"
  by (cases r; cases m)
     (auto simp add: signed_inf_def zero_less_mult_iff mult_less_0_iff
        divide_less_0_iff zero_less_divide_iff)

lemma Vector_eta [simp]: "\<lparr>vec_x = vec_x p, vec_y = vec_y p\<rparr> = (p :: Vector)"
  by (cases p) simp

lemma distToEarth_Fin:
  "distToEarth \<lparr>vec_x = Fin a, vec_y = Fin b\<rparr> = Fin (sqrt ((a - 160)\<^sup>2 + (b - 120)\<^sup>2))"
  by (simp add: distToEarth_def dpow2_def dsub_def d_of_int_def WIDTH_def HEIGHT_def
      power2_eq_square not_sum_squares_lt_zero)

lemma distToMoon_Fin:
  "moonX w = Fin mx \<Longrightarrow> moonY w = Fin my \<Longrightarrow>
   distToMoon w \<lparr>vec_x = Fin a, vec_y = Fin b\<rparr> = Fin (sqrt ((a - mx)\<^sup>2 + (b - my)\<^sup>2))"
  by (simp add: distToMoon_def dpow2_def dsub_def power2_eq_square not_sum_squares_lt_zero)

lemma ph_scale_eq: "ph_scale s a = (Vector_mult (fst a) s, Vector_mult (snd a) s)"
  by (simp add: ph_scale_def Vector_mult_def dmul_commute)

lemma addTo_eq: "addTo (a :: Vector) b = Vector_add a b"
  by (cases a) (simp add: addTo_def Vector_add_def)

lemma Vector_mult_one [simp]: "Vector_mult (v :: Vector) (Fin 1) = v"
  by (simp add: Vector_mult_def)

lemma Vector_add_assoc: "Vector_add (Vector_add a b) c = Vector_add a (Vector_add b c)"
  by (simp add: Vector_add_def dadd_assoc)

section \<open>The spacecraft update\<close>

lemma calculateAcceleration_spec: "calculateAcceleration w pos = spec_acceleration w pos"
  by (simp add: calculateAcceleration_def spec_acceleration_def spec_pull_def Let_def
      Vector_mult_def Vector_sub_def earth_centre_def moon_centre_def MU_EARTH_def MU_MOON_def
      dmul_ddiv_pos mag_def)

lemma update_integrates:
  assumes "\<not> dle (distToEarth (position c)) (d_of_int EARTH_RADIUS)"
      and "\<not> dle (distToMoon w (position c)) (d_of_int MOON_RADIUS)"
  shows "(position (fst (snd (update w c))), velocity (fst (snd (update w c)))) =
           spec_rk4 (spec_motion w) (Fin 1) (position c, velocity c)"
  using assms
  by (simp add: update_def Let_def calculateAcceleration_spec spec_rk4_def spec_motion_def
      ph_add_def ph_scale_eq addTo_eq Vector_add_assoc)

text \<open>The collision tests of the three sample spacecraft.\<close>

lemma sample_tests:
  "dle (distToEarth (position craft_on_earth)) (d_of_int EARTH_RADIUS)"
  "\<not> dle (distToEarth (position craft_on_moon)) (d_of_int EARTH_RADIUS)"
  "dle (distToMoon sample_world (position craft_on_moon)) (d_of_int MOON_RADIUS)"
  "\<not> dle (distToEarth (position craft_free)) (d_of_int EARTH_RADIUS)"
  "\<not> dle (distToMoon sample_world (position craft_free)) (d_of_int MOON_RADIUS)"
  by (simp_all add: craft_on_earth_def craft_on_moon_def craft_free_def new_Spacecraft_def
      sample_world_def distToEarth_Fin distToMoon_Fin d_of_int_def EARTH_RADIUS_def
      MOON_RADIUS_def sqrt_le_iff_sq)

lemma half_square: "dmul (dmul (Fin (1 / 2)) m) m = dmul (Fin (1 / 2)) (dpow2 m)"
  by (cases m) (simp_all add: dpow2_def signed_inf_def)

lemma distToEarth_mag: "distToEarth p = mag (Vector_sub p earth_centre)"
  by (simp add: distToEarth_def mag_def Vector_sub_def earth_centre_def dpow2_def)

lemma spec_energy_Fin:
  assumes "(px, py) \<noteq> (160, 120)"
  shows "spec_energy \<lparr>vec_x = Fin px, vec_y = Fin py\<rparr> \<lparr>vec_x = Fin vx, vec_y = Fin vy\<rparr> =
           Fin ((vx\<^sup>2 + vy\<^sup>2) / 2 - 2500 / sqrt ((px - 160)\<^sup>2 + (py - 120)\<^sup>2))"
proof -
  have r: "mag (Vector_sub \<lparr>vec_x = Fin px, vec_y = Fin py\<rparr> earth_centre) =
             Fin (sqrt ((px - 160)\<^sup>2 + (py - 120)\<^sup>2))"
    by (simp add: distToEarth_mag [symmetric] distToEarth_Fin)
  have v: "dpow2 (mag \<lparr>vec_x = Fin vx, vec_y = Fin vy\<rparr>) = Fin (vx\<^sup>2 + vy\<^sup>2)"
    by (simp add: mag_def dpow2_def not_sum_squares_lt_zero power2_eq_square)
  show ?thesis
    using assms
    by (auto simp add: spec_energy_def r v MU_EARTH_def dsub_def sum_power2_eq_zero_iff)
qed

text \<open>The branch of \<open>update\<close> past both collision tests, field by field.\<close>

lemma update_survivor:
  assumes "\<not> dle (distToEarth (position c)) (d_of_int EARTH_RADIUS)"
      and "\<not> dle (distToMoon w (position c)) (d_of_int MOON_RADIUS)"
  shows "case update w c of (removed, c', w') \<Rightarrow>
           \<not> removed \<and>
           prevEnergy c' = energy c \<and>
           trail c' = (if length (trail c) < 50 then trail c @ [position c']
                       else tl (trail c @ [position c'])) \<and>
           energy c' = spec_energy (position c') (velocity c') \<and>
           sparkle c' = dgt (dsub (energy c') (prevEnergy c')) (Fin (1 / 10)) \<and>
           sparkleEffects w' =
             (if dgt (dsub (energy c') (prevEnergy c')) (Fin (1 / 10))
              then sparkleEffects w @
                     [\<lparr>sp_x = vec_x (position c'), sp_y = vec_y (position c'), sp_life = 20\<rparr>]
              else sparkleEffects w) \<and>
           w'\<lparr>sparkleEffects := sparkleEffects w\<rparr> = w"
  using assms
  by (simp add: update_def Let_def TRAIL_LENGTH_def spec_energy_def half_square distToEarth_mag)

section \<open>The trails\<close>

lemma update_frame:
  "spacecrafts (snd (snd (update w c))) = spacecrafts w \<and>
   moonTrail (snd (snd (update w c))) = moonTrail w"
  by (simp add: update_def Let_def)

lemma update_trail_le:
  "int (length (trail c)) \<le> TRAIL_LENGTH \<Longrightarrow>
   int (length (trail (fst (snd (update w c))))) \<le> TRAIL_LENGTH"
  by (simp add: update_def Let_def TRAIL_LENGTH_def)

lemma update_trail_fifo:
  assumes "\<not> dle (distToEarth (position c)) (d_of_int EARTH_RADIUS)"
      and "\<not> dle (distToMoon w (position c)) (d_of_int MOON_RADIUS)"
  shows "trail (fst (snd (update w c))) =
           (if length (trail c) < 50 then trail c @ [position (fst (snd (update w c)))]
            else tl (trail c @ [position (fst (snd (update w c)))]))"
  using update_survivor [OF assms] by (auto split: prod.splits)

lemma set_erase_at: "set (erase_at i xs) \<subseteq> set xs"
  unfolding erase_at_def by (metis Un_least set_append set_drop_subset set_take_subset)

lemma length_erase_at: "i < length xs \<Longrightarrow> length (erase_at i xs) = length xs - 1"
  by (simp add: erase_at_def)

lemma spacecraft_loop_trails:
  "i \<le> length (spacecrafts w) \<Longrightarrow>
   \<forall>c \<in> set (spacecrafts w). int (length (trail c)) \<le> TRAIL_LENGTH \<Longrightarrow>
   (\<forall>c \<in> set (spacecrafts (spacecraft_loop i w)). int (length (trail c)) \<le> TRAIL_LENGTH) \<and>
   moonTrail (spacecraft_loop i w) = moonTrail w"
proof (induction i arbitrary: w)
  case 0
  then show ?case by simp
next
  case (Suc i)
  obtain removed c' w' where u: "update w (spacecrafts w ! i) = (removed, c', w')"
    by (cases "update w (spacecrafts w ! i)")
  from Suc.prems have lt: "i < length (spacecrafts w)" by simp
  then have old: "int (length (trail (spacecrafts w ! i))) \<le> TRAIL_LENGTH"
    using Suc.prems(2) by simp
  have same: "spacecrafts w' = spacecrafts w" "moonTrail w' = moonTrail w"
    using update_frame [of w "spacecrafts w ! i"] u by simp_all
  have new: "int (length (trail c')) \<le> TRAIL_LENGTH"
    using update_trail_le [OF old, of w] u by simp
  let ?w = "if removed then w'\<lparr>spacecrafts := erase_at i (spacecrafts w')\<rparr>
            else w'\<lparr>spacecrafts := (spacecrafts w')[i := c']\<rparr>"
  have len: "i \<le> length (spacecrafts ?w)"
    using lt same by (auto simp add: length_erase_at)
  have all: "\<forall>c \<in> set (spacecrafts ?w). int (length (trail c)) \<le> TRAIL_LENGTH"
  proof (cases removed)
    case True
    then show ?thesis
      using Suc.prems(2) same set_erase_at [of i "spacecrafts w"] by auto
  next
    case False
    then show ?thesis
      using Suc.prems(2) same new set_update_subset_insert [of "spacecrafts w" i c'] by auto
  qed
  have "spacecraft_loop (Suc i) w = spacecraft_loop i ?w"
    using u by simp
  moreover have "moonTrail ?w = moonTrail w"
    using same by simp
  ultimately show ?case
    using Suc.IH [OF len all] by simp
qed

lemma updateMoonPosition_trail:
  "moonTrail (updateMoonPosition w) =
     (if length (moonTrail w) < 360
      then moonTrail w @
             [\<lparr>vec_x = moonX (updateMoonPosition w), vec_y = moonY (updateMoonPosition w)\<rparr>]
      else tl (moonTrail w @
             [\<lparr>vec_x = moonX (updateMoonPosition w), vec_y = moonY (updateMoonPosition w)\<rparr>]))"
  by (simp add: updateMoonPosition_def Let_def)

lemma updateMoonPosition_inv: "trail_inv w \<Longrightarrow> trail_inv (updateMoonPosition w)"
  by (simp add: trail_inv_def updateMoonPosition_def Let_def)

lemma addSpacecraft_inv: "trail_inv w \<Longrightarrow> trail_inv (addSpacecraft x y w)"
  by (simp add: trail_inv_def addSpacecraft_def Let_def new_Spacecraft_def TRAIL_LENGTH_def)

lemma loop_body_inv:
  assumes "trail_inv w"
  shows "trail_inv (loop_body touch w)"
proof -
  define w1 where "w1 = (case touch of None \<Rightarrow> w | Some (x, y) \<Rightarrow> addSpacecraft x y w)"
  define w3 where
    "w3 = updateMoonPosition (w1\<lparr>moonAngle := dadd (moonAngle w1) MOON_ANGULAR_VELOCITY\<rparr>)"
  define w4 where "w4 = spacecraft_loop (length (spacecrafts w3)) w3"
  have "trail_inv w1"
    using assms by (cases touch) (auto simp add: w1_def addSpacecraft_inv)
  then have "trail_inv (w1\<lparr>moonAngle := dadd (moonAngle w1) MOON_ANGULAR_VELOCITY\<rparr>)"
    by (simp add: trail_inv_def)
  then have "trail_inv w3"
    unfolding w3_def by (rule updateMoonPosition_inv)
  then have "trail_inv w4"
    using spacecraft_loop_trails [of "length (spacecrafts w3)" w3]
    by (simp add: trail_inv_def w4_def)
  moreover have "loop_body touch w =
      w4\<lparr>explosionEffects := explosion_pass (explosionEffects w4),
         sparkleEffects := sparkle_pass (sparkleEffects w4)\<rparr>"
    by (simp add: loop_body_def Let_def w1_def w3_def w4_def)
  ultimately show ?thesis by (simp add: trail_inv_def)
qed

lemma after_setup_inv: "trail_inv after_setup"
  by (simp add: after_setup_def updateMoonPosition_def Let_def trail_inv_def)

lemma frames_inv: "trail_inv w \<Longrightarrow> trail_inv (frames touches w)"
  unfolding frames_def
  by (induction touches arbitrary: w) (simp_all add: loop_body_inv)

text \<open>A full trail of 50 points loses its oldest point \<open>p\<close>.\<close>

lemma full_trail_evicts:
  assumes "\<not> dle (distToEarth (position c)) (d_of_int EARTH_RADIUS)"
      and "\<not> dle (distToMoon w (position c)) (d_of_int MOON_RADIUS)"
      and "trail c = p # replicate 49 q"
  shows "trail (fst (snd (update w c))) = replicate 49 q @ [position (fst (snd (update w c)))]"
  using update_trail_fifo [OF assms(1,2)] assms(3) by simp

section \<open>The effect loops\<close>







text \<open>
  In a frame the spacecraft loop only appends to the two effect vectors, and each
  vector then goes through its pass once.
\<close>

lemma update_appends:
  "\<exists>ex sp. explosionEffects (snd (snd (update w c))) = explosionEffects w @ ex \<and>
           sparkleEffects (snd (snd (update w c))) = sparkleEffects w @ sp"
  by (simp add: update_def Let_def)

lemma spacecraft_loop_appends:
  "\<exists>ex sp. explosionEffects (spacecraft_loop i w) = explosionEffects w @ ex \<and>
           sparkleEffects (spacecraft_loop i w) = sparkleEffects w @ sp"
proof (induction i arbitrary: w)
  case 0
  show ?case by simp
next
  case (Suc i)
  obtain removed c' w' where u: "update w (spacecrafts w ! i) = (removed, c', w')"
    by (cases "update w (spacecrafts w ! i)")
  obtain ex sp where first: "explosionEffects w' = explosionEffects w @ ex"
      "sparkleEffects w' = sparkleEffects w @ sp"
    using update_appends [of w "spacecrafts w ! i"] u by auto
  let ?w = "if removed then w'\<lparr>spacecrafts := erase_at i (spacecrafts w')\<rparr>
            else w'\<lparr>spacecrafts := (spacecrafts w')[i := c']\<rparr>"
  obtain ex' sp' where rest: "explosionEffects (spacecraft_loop i ?w) = explosionEffects ?w @ ex'"
      "sparkleEffects (spacecraft_loop i ?w) = sparkleEffects ?w @ sp'"
    using Suc.IH [of ?w] by auto
  have "spacecraft_loop (Suc i) w = spacecraft_loop i ?w"
    using u by simp
  moreover have "explosionEffects ?w = explosionEffects w'" "sparkleEffects ?w = sparkleEffects w'"
    by simp_all
  ultimately have "explosionEffects (spacecraft_loop (Suc i) w) = explosionEffects w @ (ex @ ex')"
    and "sparkleEffects (spacecraft_loop (Suc i) w) = sparkleEffects w @ (sp @ sp')"
    using first rest by simp_all
  then show ?case by blast
qed


lemma loop_body_sparkles:
  "\<exists>new. sparkleEffects (loop_body None w) = sparkle_pass (sparkleEffects w @ new)"
proof -
  define w3 where
    "w3 = updateMoonPosition (w\<lparr>moonAngle := dadd (moonAngle w) MOON_ANGULAR_VELOCITY\<rparr>)"
  have "sparkleEffects w3 = sparkleEffects w"
    by (simp add: w3_def updateMoonPosition_def Let_def)
  then obtain new where
    "sparkleEffects (spacecraft_loop (length (spacecrafts w3)) w3) = sparkleEffects w @ new"
    using spacecraft_loop_appends [of "length (spacecrafts w3)" w3] by auto
  then have "sparkleEffects (loop_body None w) = sparkle_pass (sparkleEffects w @ new)"
    by (simp add: loop_body_def Let_def w3_def)
  then show ?thesis ..
qed









section \<open>Presses\<close>

lemma dEarth_eq:
  "dEarth x y = Fin (sqrt (real_of_int ((x - 160)\<^sup>2 + (y - 120)\<^sup>2)))"
  by (simp add: dEarth_def dpow2_def d_of_int_def WIDTH_def HEIGHT_def power2_eq_square
      not_sum_squares_lt_zero)

lemma tap_inside_iff:
  "dlt (dEarth x y) (d_of_int EARTH_RADIUS) = ((x - 160)\<^sup>2 + (y - 120)\<^sup>2 < 225)"
proof -
  have "(real_of_int ((x - 160)\<^sup>2 + (y - 120)\<^sup>2) < 225) = ((x - 160)\<^sup>2 + (y - 120)\<^sup>2 < 225)"
    by linarith
  then show ?thesis
    by (simp add: dEarth_eq d_of_int_def EARTH_RADIUS_def sqrt_less_iff_sq)
qed

lemma tap_within_iff:
  "dle (dEarth x y) (d_of_int EARTH_RADIUS) = ((x - 160)\<^sup>2 + (y - 120)\<^sup>2 \<le> 225)"
proof -
  have "(real_of_int ((x - 160)\<^sup>2 + (y - 120)\<^sup>2) \<le> 225) = ((x - 160)\<^sup>2 + (y - 120)\<^sup>2 \<le> 225)"
    by linarith
  then show ?thesis
    by (simp add: dEarth_eq d_of_int_def EARTH_RADIUS_def sqrt_le_iff_sq)
qed

lemma distToEarth_tap: "distToEarth \<lparr>vec_x = d_of_int x, vec_y = d_of_int y\<rparr> = dEarth x y"
  by (simp add: distToEarth_def dEarth_def d_of_int_def dsub_def)

lemma tap_inside:
  "dlt (dEarth x y) (d_of_int EARTH_RADIUS) \<Longrightarrow>
   addSpacecraft x y w = w\<lparr>spacecrafts := [], sparkleEffects := []\<rparr>"
  by (simp add: addSpacecraft_def)

lemma tap_outside:
  assumes "\<not> dlt (dEarth x y) (d_of_int EARTH_RADIUS)"
  shows "addSpacecraft x y w =
           w\<lparr>spacecrafts := spacecrafts w @
               [new_Spacecraft (d_of_int x) (d_of_int y)
                  (Fin (fst (spec_launch_velocity x y))) (Fin (snd (spec_launch_velocity x y)))]\<rparr>"
proof -
  define dx where "dx = real_of_int x - 160"
  define dy where "dy = real_of_int y - 120"
  define d where "d = sqrt (dx\<^sup>2 + dy\<^sup>2)"
  define s where "s = 1 + 3 * (d / 160)"
  have "225 \<le> (x - 160)\<^sup>2 + (y - 120)\<^sup>2"
    using assms by (simp add: tap_inside_iff)
  then have "225 \<le> real_of_int ((x - 160)\<^sup>2 + (y - 120)\<^sup>2)"
    by linarith
  then have "0 < dx\<^sup>2 + dy\<^sup>2"
    by (simp add: dx_def dy_def)
  then have nz: "d \<noteq> 0"
    unfolding d_def by (metis less_irrefl real_sqrt_eq_zero_cancel_iff)
  have dirX: "d_of_int (x - WIDTH div 2) = Fin dx"
    and dirY: "d_of_int (y - HEIGHT div 2) = Fin dy"
    and half: "d_of_int (WIDTH div 2) = Fin 160"
    by (simp_all add: d_of_int_def WIDTH_def HEIGHT_def dx_def dy_def)
  have droot: "sqrt (dx * dx + dy * dy) = d"
    by (simp add: d_def power2_eq_square)
  have spec: "spec_launch_velocity x y = (s * (dy / d), s * (- (dx / d)))"
    by (simp add: spec_launch_velocity_def Let_def rot90_def WIDTH_def HEIGHT_def
        dx_def dy_def d_def s_def)
  have vx: "dy / d * (1 + 3 * (d / 160)) = s * (dy / d)"
    and vy: "- dx / d * (1 + 3 * (d / 160)) = s * (- (dx / d))"
    by (simp_all add: s_def)
  have "addSpacecraft x y w =
          w\<lparr>spacecrafts := spacecrafts w @
              [new_Spacecraft (d_of_int x) (d_of_int y)
                 (Fin (dy / d * (1 + 3 * (d / 160)))) (Fin (- dx / d * (1 + 3 * (d / 160))))]\<rparr>"
    using assms nz
    by (simp add: addSpacecraft_def Let_def dirX dirY half droot not_sum_squares_lt_zero)
  then show ?thesis
    by (simp only: vx vy spec fst_conv snd_conv)
qed

lemma launch_speed:
  assumes "(x, y) \<noteq> (160, 120)"
  shows "sqrt ((fst (spec_launch_velocity x y))\<^sup>2 + (snd (spec_launch_velocity x y))\<^sup>2) =
           1 + 3 * (sqrt ((real_of_int x - 160)\<^sup>2 + (real_of_int y - 120)\<^sup>2) / 160)"
proof -
  define dx where "dx = real_of_int x - 160"
  define dy where "dy = real_of_int y - 120"
  define d where "d = sqrt (dx\<^sup>2 + dy\<^sup>2)"
  define s where "s = 1 + 3 * (d / 160)"
  have "dx \<noteq> 0 \<or> dy \<noteq> 0"
    using assms by (auto simp add: dx_def dy_def)
  then have dpos: "0 < d"
    unfolding d_def by (simp add: sum_power2_gt_zero_iff)
  then have spos: "0 < s"
    unfolding s_def by simp
  have dd: "d\<^sup>2 = dx\<^sup>2 + dy\<^sup>2"
    unfolding d_def by simp
  have "(s * (dy / d))\<^sup>2 + (s * (- (dx / d)))\<^sup>2 = s\<^sup>2 * ((dx\<^sup>2 + dy\<^sup>2) / d\<^sup>2)"
    by (simp add: power_mult_distrib power_divide algebra_simps add_divide_distrib)
  also have "\<dots> = s\<^sup>2"
    using dpos by (simp add: dd [symmetric])
  finally have "sqrt ((s * (dy / d))\<^sup>2 + (s * (- (dx / d)))\<^sup>2) = s"
    using spos by simp
  then show ?thesis
    by (simp add: spec_launch_velocity_def Let_def rot90_def WIDTH_def HEIGHT_def
        dx_def dy_def d_def s_def)
qed

lemma launch_right_of_earth:
  "spec_launch_velocity (WIDTH div 2 + 50) (HEIGHT div 2) =
     (0, - (1 + 3 * (50 / real_of_int (WIDTH div 2))))"
  by (simp add: spec_launch_velocity_def Let_def rot90_def WIDTH_def HEIGHT_def)

lemma busy_fields:
  "spacecrafts busy_world = [new_Spacecraft (Fin 200) (Fin 120) (Fin 0) (Fin (- 2))]"
  "sparkleEffects busy_world = [\<lparr>sp_x = Fin 100, sp_y = Fin 50, sp_life = 7\<rparr>]"
  "explosionEffects busy_world =
     [\<lparr>ex_x = Fin 150, ex_y = Fin 120, ex_size = 15, ex_life = 12, ex_alpha = Fin 102\<rparr>]"
  by (simp_all add: busy_world_def)

section \<open>A run from the start\<close>

lemma mag_on_axis: "mag \<lparr>vec_x = Fin a, vec_y = Fin 0\<rparr> = Fin \<bar>a\<bar>"
  by (simp add: mag_def)

lemma sample_acceleration:
  "calculateAcceleration sample_world \<lparr>vec_x = Fin 200, vec_y = Fin 120\<rparr> =
     \<lparr>vec_x = Fin (- (215 / 144)), vec_y = Fin 0\<rparr>"
proof -
  have e: "mag \<lparr>vec_x = Fin (- 40), vec_y = Fin 0\<rparr> = Fin 40"
    and m: "mag \<lparr>vec_x = Fin 60, vec_y = Fin 0\<rparr> = Fin 60"
    by (simp_all add: mag_on_axis)
  show ?thesis
    by (simp add: calculateAcceleration_def Let_def sample_world_def d_of_int_def dsub_def
        WIDTH_def HEIGHT_def e m Vector_mult_def Vector_add_def MU_EARTH_def MU_MOON_def)
qed

text \<open>
  A spacecraft to the left of \<open>x = 55\<close> is out of the Moon's reach, wherever the Moon
  is on its circle.
\<close>

lemma moon_on_circle:
  assumes "moonAngle w = Fin a"
  shows "moonX (updateMoonPosition w) = Fin (160 + 100 * cos a)"
    and "moonY (updateMoonPosition w) = Fin (120 + 100 * sin a)"
  using assms
  by (simp_all add: updateMoonPosition_def Let_def d_of_int_def WIDTH_def HEIGHT_def
      MOON_DISTANCE_def)

lemma left_of_moon:
  assumes "moonX w = Fin mx" "moonY w = Fin my" "px + 5 < mx"
  shows "\<not> dle (distToMoon w \<lparr>vec_x = Fin px, vec_y = Fin py\<rparr>) (d_of_int MOON_RADIUS)"
proof -
  have "5 < mx - px" using assms(3) by simp
  then have "5 * 5 < (mx - px) * (mx - px)"
    by (intro mult_strict_mono) simp_all
  then have "25 < (px - mx)\<^sup>2"
    by (simp add: power2_eq_square algebra_simps)
  moreover have "0 \<le> (py - my)\<^sup>2" by simp
  ultimately have "\<not> (px - mx)\<^sup>2 + (py - my)\<^sup>2 \<le> 25"
    by linarith
  then show ?thesis
    by (simp add: distToMoon_Fin [OF assms(1,2)] d_of_int_def MOON_RADIUS_def sqrt_le_iff_sq)
qed

text \<open>
  The first frame after \<open>setup()\<close>, with a press at \<open>(10, 120)\<close>: the spacecraft is
  created, passes both collision tests and has a trail of one point after the frame.
\<close>

lemma first_frame:
  "\<exists>c. spacecrafts (frames [Some (10, 120)] after_setup) = [c] \<and> length (trail c) = 1"
proof -
  define w0 where "w0 = after_setup"
  define w1 where "w1 = addSpacecraft 10 120 w0"
  define w2 where "w2 = w1\<lparr>moonAngle := dadd (moonAngle w1) MOON_ANGULAR_VELOCITY\<rparr>"
  define w3 where "w3 = updateMoonPosition w2"
  define c where "c = new_Spacecraft (d_of_int 10) (d_of_int 120)
     (Fin (fst (spec_launch_velocity 10 120))) (Fin (snd (spec_launch_velocity 10 120)))"
  have s0: "spacecrafts w0 = []" "moonAngle w0 = Fin 0"
    by (simp_all add: w0_def after_setup_def updateMoonPosition_def Let_def)
  have out: "\<not> dlt (dEarth 10 120) (d_of_int EARTH_RADIUS)"
    by (simp add: tap_inside_iff)
  have s1: "spacecrafts w1 = [c]" "moonAngle w1 = Fin 0"
    by (simp_all add: w1_def tap_outside [OF out] s0 c_def)
  have a2: "moonAngle w2 = Fin (5 / 1000)"
    by (simp add: w2_def s1 MOON_ANGULAR_VELOCITY_def)
  have s3: "spacecrafts w3 = [c]"
    by (simp add: w3_def w2_def updateMoonPosition_def Let_def s1)
  have mx: "moonX w3 = Fin (160 + 100 * cos (5 / 1000))"
    and my: "moonY w3 = Fin (120 + 100 * sin (5 / 1000))"
    unfolding w3_def by (rule moon_on_circle [OF a2])+
  have pos: "position c = \<lparr>vec_x = Fin 10, vec_y = Fin 120\<rparr>" and tr: "trail c = []"
    by (simp_all add: c_def new_Spacecraft_def d_of_int_def)
  have "- 1 \<le> cos (5 / 1000 :: real)"
    by (rule cos_ge_minus_one)
  then have "(10 :: real) + 5 < 160 + 100 * cos (5 / 1000)"
    by linarith
  then have moon: "\<not> dle (distToMoon w3 (position c)) (d_of_int MOON_RADIUS)"
    unfolding pos by (rule left_of_moon [OF mx my])
  have earth: "\<not> dle (distToEarth (position c)) (d_of_int EARTH_RADIUS)"
    by (simp add: pos distToEarth_Fin d_of_int_def EARTH_RADIUS_def sqrt_le_iff_sq)
  obtain removed c' w' where u: "update w3 c = (removed, c', w')"
    by (cases "update w3 c")
  have keep: "\<not> removed" and one: "length (trail c') = 1"
    using update_survivor [OF earth moon] u tr by simp_all
  have same: "spacecrafts w' = [c]"
    using update_frame [of w3 c] u s3 by simp
  have "spacecrafts (spacecraft_loop (length (spacecrafts w3)) w3) = [c']"
    using u keep same by (simp add: s3)
  then have "spacecrafts (frames [Some (10, 120)] after_setup) = [c']"
    by (simp add: frames_def loop_body_def Let_def w3_def w2_def w1_def w0_def)
  then show ?thesis
    using one by blast
qed

section \<open>The claims\<close>

text \<open>
  C1. A spacecraft whose position, as it is before the step, is at distance at most
  \<open>EARTH_RADIUS\<close> from the screen centre is left as it is (no integration step), is
  reported destroyed, and exactly one explosion of size 15 and life 30 is appended at
  its position. Otherwise, when that position is at distance at most \<open>MOON_RADIUS\<close>
  from the Moon, the same happens with an explosion of size 10. When neither test on
  the position before the step succeeds, the spacecraft is not reported destroyed
  and no explosion is added, wherever the step takes it: the position after the
  step is never tested. For finite coordinates the two tests compare the Euclidean
  distance to the screen centre \<open>(160, 120)\<close> with 15 and the Euclidean distance to
  the Moon with 5.
\<close>

theorem update_collision:
  "(dle (distToEarth (position c)) (d_of_int EARTH_RADIUS) \<longrightarrow>
      update w c =
        (True, c,
         w\<lparr>explosionEffects := explosionEffects w @
             [\<lparr>ex_x = vec_x (position c), ex_y = vec_y (position c),
               ex_size = 15, ex_life = 30, ex_alpha = Fin 255\<rparr>]\<rparr>)) \<and>
   (\<not> dle (distToEarth (position c)) (d_of_int EARTH_RADIUS) \<and>
    dle (distToMoon w (position c)) (d_of_int MOON_RADIUS) \<longrightarrow>
      update w c =
        (True, c,
         w\<lparr>explosionEffects := explosionEffects w @
             [\<lparr>ex_x = vec_x (position c), ex_y = vec_y (position c),
               ex_size = 10, ex_life = 30, ex_alpha = Fin 255\<rparr>]\<rparr>)) \<and>
   (\<not> dle (distToEarth (position c)) (d_of_int EARTH_RADIUS) \<and>
    \<not> dle (distToMoon w (position c)) (d_of_int MOON_RADIUS) \<longrightarrow>
      \<not> fst (update w c) \<and> explosionEffects (snd (snd (update w c))) = explosionEffects w) \<and>
   dle (distToEarth \<lparr>vec_x = Fin px, vec_y = Fin py\<rparr>) (d_of_int EARTH_RADIUS) =
     (sqrt ((px - 160)\<^sup>2 + (py - 120)\<^sup>2) \<le> 15) \<and>
   (moonX w = Fin mx \<and> moonY w = Fin my \<longrightarrow>
      dle (distToMoon w \<lparr>vec_x = Fin px, vec_y = Fin py\<rparr>) (d_of_int MOON_RADIUS) =
        (sqrt ((px - mx)\<^sup>2 + (py - my)\<^sup>2) \<le> 5))"
  by (simp add: update_def Let_def distToEarth_Fin distToMoon_Fin d_of_int_def
      EARTH_RADIUS_def MOON_RADIUS_def)

theorem update_collision_witness:
  "dle (distToEarth (position craft_on_earth)) (d_of_int EARTH_RADIUS) \<and>
   update sample_world craft_on_earth =
     (True, craft_on_earth,
      sample_world\<lparr>explosionEffects :=
        [\<lparr>ex_x = Fin 170, ex_y = Fin 120, ex_size = 15, ex_life = 30, ex_alpha = Fin 255\<rparr>]\<rparr>) \<and>
   \<not> dle (distToEarth (position craft_on_moon)) (d_of_int EARTH_RADIUS) \<and>
   dle (distToMoon sample_world (position craft_on_moon)) (d_of_int MOON_RADIUS) \<and>
   update sample_world craft_on_moon =
     (True, craft_on_moon,
      sample_world\<lparr>explosionEffects :=
        [\<lparr>ex_x = Fin 258, ex_y = Fin 121, ex_size = 10, ex_life = 30, ex_alpha = Fin 255\<rparr>]\<rparr>) \<and>
   \<not> dle (distToEarth (position craft_free)) (d_of_int EARTH_RADIUS) \<and>
   \<not> dle (distToMoon sample_world (position craft_free)) (d_of_int MOON_RADIUS) \<and>
   \<not> fst (update sample_world craft_free) \<and>
   explosionEffects (snd (snd (update sample_world craft_free))) = []"
proof -
  have explosions: "explosionEffects sample_world = []"
    by (simp add: sample_world_def)
  have "vec_x (position craft_on_earth) = Fin 170" "vec_y (position craft_on_earth) = Fin 120"
       "vec_x (position craft_on_moon) = Fin 258" "vec_y (position craft_on_moon) = Fin 121"
    by (simp_all add: craft_on_earth_def craft_on_moon_def new_Spacecraft_def)
  then show ?thesis
    using update_collision [of craft_on_earth sample_world]
      update_collision [of craft_on_moon sample_world]
      update_collision [of craft_free sample_world]
      sample_tests explosions
    by simp
qed

text \<open>
  C2. For a spacecraft that passes both collision tests, the position and velocity
  after \<open>update\<close> are those of one step of the classical fourth-order Runge-Kutta
  method with \<open>dt = 1\<close> for \<open>dr/dt = v\<close>, \<open>dv/dt = a(r)\<close>, where \<open>a(r)\<close> is the sum
  over the Earth and the Moon of \<open>\<mu> \<cdot> r_vec / |r_vec|\<^sup>3\<close>.
\<close>

theorem update_is_rk4:
  assumes "\<not> dle (distToEarth (position c)) (d_of_int EARTH_RADIUS)"
      and "\<not> dle (distToMoon w (position c)) (d_of_int MOON_RADIUS)"
  shows "(position (fst (snd (update w c))), velocity (fst (snd (update w c)))) =
           spec_rk4 (spec_motion w) (Fin 1) (position c, velocity c)"
  using assms by (rule update_integrates)

theorem update_is_rk4_witness:
  "\<not> dle (distToEarth (position craft_free)) (d_of_int EARTH_RADIUS) \<and>
   \<not> dle (distToMoon sample_world (position craft_free)) (d_of_int MOON_RADIUS) \<and>
   (position (fst (snd (update sample_world craft_free))),
    velocity (fst (snd (update sample_world craft_free)))) =
     spec_rk4 (spec_motion sample_world) (Fin 1) (position craft_free, velocity craft_free) \<and>
   spec_acceleration sample_world (position craft_free) =
     \<lparr>vec_x = Fin (- (215 / 144)), vec_y = Fin 0\<rparr>"
proof -
  have "position craft_free = \<lparr>vec_x = Fin 200, vec_y = Fin 120\<rparr>"
    by (simp add: craft_free_def new_Spacecraft_def)
  then have "spec_acceleration sample_world (position craft_free) =
      \<lparr>vec_x = Fin (- (215 / 144)), vec_y = Fin 0\<rparr>"
    using sample_acceleration by (simp add: calculateAcceleration_spec)
  then show ?thesis
    using update_is_rk4 [of craft_free sample_world] sample_tests by simp
qed



text \<open>
  C4. A spacecraft that passes both collision tests is not reported destroyed; its
  \<open>prevEnergy\<close> becomes the old \<open>energy\<close>; position and velocity are integrated (the
  Runge-Kutta step of C2); the new position is appended to the trail and the oldest
  point is dropped when the trail held \<open>TRAIL_LENGTH = 50\<close> points already; \<open>energy\<close>
  is recomputed from the new state. If the new energy minus \<open>prevEnergy\<close> is greater
  than 0.1 the sparkle flag is set and one sparkle of life 20 at the new position is
  appended; otherwise the flag is cleared and no sparkle is appended. Nothing else
  of the globals changes (in particular no explosion is added).
\<close>

theorem update_continues:
  assumes "\<not> dle (distToEarth (position c)) (d_of_int EARTH_RADIUS)"
      and "\<not> dle (distToMoon w (position c)) (d_of_int MOON_RADIUS)"
  shows "case update w c of (removed, c', w') \<Rightarrow>
           \<not> removed \<and>
           prevEnergy c' = energy c \<and>
           (position c', velocity c') =
             spec_rk4 (spec_motion w) (Fin 1) (position c, velocity c) \<and>
           trail c' = (if length (trail c) < 50 then trail c @ [position c']
                       else tl (trail c @ [position c'])) \<and>
           energy c' = spec_energy (position c') (velocity c') \<and>
           (if dgt (dsub (energy c') (prevEnergy c')) (Fin (1 / 10))
            then sparkle c' \<and>
                 sparkleEffects w' = sparkleEffects w @
                   [\<lparr>sp_x = vec_x (position c'), sp_y = vec_y (position c'), sp_life = 20\<rparr>]
            else \<not> sparkle c' \<and> sparkleEffects w' = sparkleEffects w) \<and>
           w'\<lparr>sparkleEffects := sparkleEffects w\<rparr> = w"
  using update_survivor [OF assms] update_integrates [OF assms]
  by (auto split: prod.splits)

theorem update_continues_witness:
  "\<not> dle (distToEarth (position craft_free)) (d_of_int EARTH_RADIUS) \<and>
   \<not> dle (distToMoon sample_world (position craft_free)) (d_of_int MOON_RADIUS) \<and>
   (case update sample_world craft_free of (removed, c', w') \<Rightarrow>
      \<not> removed \<and>
      prevEnergy c' = Fin 0 \<and>
      (position c', velocity c') =
        spec_rk4 (spec_motion sample_world) (Fin 1)
          (\<lparr>vec_x = Fin 200, vec_y = Fin 120\<rparr>, \<lparr>vec_x = Fin 0, vec_y = Fin (- 2)\<rparr>) \<and>
      trail c' = [position c'] \<and>
      energy c' = spec_energy (position c') (velocity c') \<and>
      (if dgt (dsub (energy c') (prevEnergy c')) (Fin (1 / 10))
       then sparkle c' \<and>
            sparkleEffects w' =
              [\<lparr>sp_x = vec_x (position c'), sp_y = vec_y (position c'), sp_life = 20\<rparr>]
       else \<not> sparkle c' \<and> sparkleEffects w' = []) \<and>
      w'\<lparr>sparkleEffects := []\<rparr> = sample_world)"
proof -
  have fields: "energy craft_free = Fin 0" "trail craft_free = []"
    "position craft_free = \<lparr>vec_x = Fin 200, vec_y = Fin 120\<rparr>"
    "velocity craft_free = \<lparr>vec_x = Fin 0, vec_y = Fin (- 2)\<rparr>"
    "sparkleEffects sample_world = []"
    by (simp_all add: craft_free_def new_Spacecraft_def sample_world_def)
  show ?thesis
    using update_continues [of craft_free sample_world] sample_tests(4,5)
    by (simp add: fields split: prod.splits)
qed

text \<open>
  C5. After an update past both collision tests the energy of the spacecraft is the
  Earth-centred specific orbital energy \<open>\<onehalf>|v|\<^sup>2 - \<mu> / r\<close> of the state after the
  step, with \<open>\<mu> = MU_EARTH\<close> and \<open>r\<close> the distance to the screen centre; for finite
  coordinates away from the centre this is the real number
  \<open>(vx\<^sup>2 + vy\<^sup>2) / 2 - 2500 / sqrt ((px - 160)\<^sup>2 + (py - 120)\<^sup>2)\<close>. The colour
  that the drawing chooses is that of a bound orbit exactly when the current energy
  is below zero and that of an escape orbit otherwise, in particular when the
  energy is zero or more; it is computed from the energy at every drawing and is
  not stored.
\<close>

theorem energy_and_classification:
  "(\<not> dle (distToEarth (position c)) (d_of_int EARTH_RADIUS) \<and>
    \<not> dle (distToMoon w (position c)) (d_of_int MOON_RADIUS) \<longrightarrow>
      energy (fst (snd (update w c))) =
        spec_energy (position (fst (snd (update w c)))) (velocity (fst (snd (update w c))))) \<and>
   ((px, py) \<noteq> (160, 120) \<longrightarrow>
      spec_energy \<lparr>vec_x = Fin px, vec_y = Fin py\<rparr> \<lparr>vec_x = Fin vx, vec_y = Fin vy\<rparr> =
        Fin ((vx\<^sup>2 + vy\<^sup>2) / 2 - 2500 / sqrt ((px - 160)\<^sup>2 + (py - 120)\<^sup>2))) \<and>
   (orbitColor s = BOUND_ORBIT_COLOR) = dlt (energy s) (Fin 0) \<and>
   (orbitColor s = ESCAPE_ORBIT_COLOR) = (\<not> dlt (energy s) (Fin 0)) \<and>
   (dle (Fin 0) (energy s) \<longrightarrow> orbitColor s = ESCAPE_ORBIT_COLOR)"
proof -
  have "dle (Fin 0) (energy s) \<longrightarrow> \<not> dlt (energy s) (Fin 0)"
    by (cases "energy s") simp_all
  moreover have
    "\<not> dle (distToEarth (position c)) (d_of_int EARTH_RADIUS) \<and>
     \<not> dle (distToMoon w (position c)) (d_of_int MOON_RADIUS) \<longrightarrow>
       energy (fst (snd (update w c))) =
         spec_energy (position (fst (snd (update w c)))) (velocity (fst (snd (update w c))))"
    using update_survivor [of c w] by (auto split: prod.splits)
  ultimately show ?thesis
    using spec_energy_Fin [of px py vx vy] by (simp add: orbitColor_def)
qed

theorem energy_and_classification_witness:
  "\<not> dle (distToEarth (position craft_free)) (d_of_int EARTH_RADIUS) \<and>
   \<not> dle (distToMoon sample_world (position craft_free)) (d_of_int MOON_RADIUS) \<and>
   energy (fst (snd (update sample_world craft_free))) =
     spec_energy (position (fst (snd (update sample_world craft_free))))
       (velocity (fst (snd (update sample_world craft_free)))) \<and>
   (200, 120) \<noteq> (160 :: real, 120 :: real) \<and>
   spec_energy \<lparr>vec_x = Fin 200, vec_y = Fin 120\<rparr> \<lparr>vec_x = Fin 0, vec_y = Fin (- 2)\<rparr> =
     Fin (- (121 / 2)) \<and>
   dle (Fin 0) (energy craft_free) \<and>
   orbitColor craft_free = ESCAPE_ORBIT_COLOR \<and>
   orbitColor (craft_free\<lparr>energy := Fin (- (121 / 2))\<rparr>) = BOUND_ORBIT_COLOR"
  using energy_and_classification [of craft_free sample_world 200 120 0 "- 2" craft_free]
    energy_and_classification
      [of craft_free sample_world 200 120 0 "- 2" "craft_free\<lparr>energy := Fin (- (121 / 2))\<rparr>"]
    sample_tests(4,5)
  by (simp add: craft_free_def new_Spacecraft_def)

text \<open>
  C6, as the claim states it, fails on the rim. Earth's collision radius is the
  distance at most \<open>EARTH_RADIUS\<close> of \<open>update\<close>. The press at \<open>(175, 120)\<close> is at
  distance exactly 15, so within that radius, and it does not reset: the spacecraft
  and the sparkle of the state stay, and a second spacecraft is created.
\<close>

theorem tap_on_rim_counterexample:
  "dle (dEarth 175 120) (d_of_int EARTH_RADIUS) \<and>
   length (spacecrafts (addSpacecraft 175 120 busy_world)) = 2 \<and>
   length (sparkleEffects (addSpacecraft 175 120 busy_world)) = 1"
proof -
  have "\<not> dlt (dEarth 175 120) (d_of_int EARTH_RADIUS)"
    by (simp add: tap_inside_iff)
  then show ?thesis
    by (simp add: tap_outside tap_within_iff busy_fields)
qed

text \<open>
  C6, amended. A press strictly inside the Earth, at distance less than
  \<open>EARTH_RADIUS\<close> from the screen centre (for the integer coordinates of a press:
  \<open>(x - 160)\<^sup>2 + (y - 120)\<^sup>2 < 225\<close>), leaves no spacecraft and no sparkle, creates
  no spacecraft and changes nothing else: the explosions are the same, with the
  same fields.
\<close>

theorem tap_inside_earth_resets:
  "dlt (dEarth x y) (d_of_int EARTH_RADIUS) = ((x - 160)\<^sup>2 + (y - 120)\<^sup>2 < 225) \<and>
   (dlt (dEarth x y) (d_of_int EARTH_RADIUS) \<longrightarrow>
      addSpacecraft x y w = w\<lparr>spacecrafts := [], sparkleEffects := []\<rparr> \<and>
      spacecrafts (addSpacecraft x y w) = [] \<and>
      sparkleEffects (addSpacecraft x y w) = [] \<and>
      explosionEffects (addSpacecraft x y w) = explosionEffects w)"
  using tap_inside [of x y w] by (simp add: tap_inside_iff)

theorem tap_inside_earth_resets_witness:
  "dlt (dEarth 170 125) (d_of_int EARTH_RADIUS) \<and>
   addSpacecraft 170 125 busy_world = busy_world\<lparr>spacecrafts := [], sparkleEffects := []\<rparr> \<and>
   spacecrafts (addSpacecraft 170 125 busy_world) = [] \<and>
   sparkleEffects (addSpacecraft 170 125 busy_world) = [] \<and>
   explosionEffects (addSpacecraft 170 125 busy_world) =
     [\<lparr>ex_x = Fin 150, ex_y = Fin 120, ex_size = 15, ex_life = 12, ex_alpha = Fin 102\<rparr>]"
  using tap_inside_earth_resets [of 170 125 busy_world] by (simp add: busy_fields)

text \<open>
  C7. A press that is not strictly inside the Earth (distance at least
  \<open>EARTH_RADIUS\<close>, which covers every press outside the collision radius) appends
  exactly one spacecraft and changes nothing else. The spacecraft is at the press,
  with an empty trail, and its velocity is the unit vector from the Earth's centre
  to the press, turned by a right angle, times the speed
  \<open>1 + 3 \<cdot> (distance / (WIDTH / 2))\<close>; the length of the velocity is that speed.
  The press at \<open>(WIDTH / 2 + 50, HEIGHT / 2)\<close> gives the velocity
  \<open>(0, - (1 + 3 \<cdot> (50 / (WIDTH / 2))))\<close>.
\<close>

theorem tap_outside_launches:
  assumes "\<not> dlt (dEarth x y) (d_of_int EARTH_RADIUS)"
  shows "addSpacecraft x y w =
           w\<lparr>spacecrafts := spacecrafts w @
               [\<lparr>position = \<lparr>vec_x = Fin (real_of_int x), vec_y = Fin (real_of_int y)\<rparr>,
                 velocity = \<lparr>vec_x = Fin (fst (spec_launch_velocity x y)),
                             vec_y = Fin (snd (spec_launch_velocity x y))\<rparr>,
                 trail = [], energy = Fin 0, prevEnergy = Fin 0, sparkle = False\<rparr>]\<rparr> \<and>
         sqrt ((fst (spec_launch_velocity x y))\<^sup>2 + (snd (spec_launch_velocity x y))\<^sup>2) =
           1 + 3 * (sqrt ((real_of_int x - 160)\<^sup>2 + (real_of_int y - 120)\<^sup>2) / 160) \<and>
         spec_launch_velocity (WIDTH div 2 + 50) (HEIGHT div 2) =
           (0, - (1 + 3 * (50 / real_of_int (WIDTH div 2))))"
proof -
  have "(x, y) \<noteq> (160, 120)"
    using assms by (auto simp add: tap_inside_iff)
  then show ?thesis
    using tap_outside [OF assms, of w] launch_speed [of x y] launch_right_of_earth
    by (simp add: new_Spacecraft_def d_of_int_def)
qed

theorem tap_outside_launches_witness:
  "\<not> dlt (dEarth 210 120) (d_of_int EARTH_RADIUS) \<and>
   addSpacecraft 210 120 busy_world =
     busy_world\<lparr>spacecrafts :=
       [new_Spacecraft (Fin 200) (Fin 120) (Fin 0) (Fin (- 2)),
        new_Spacecraft (Fin 210) (Fin 120) (Fin 0) (Fin (- (31 / 16)))]\<rparr> \<and>
   spec_launch_velocity 210 120 = (0, - (31 / 16))"
proof -
  have out: "\<not> dlt (dEarth 210 120) (d_of_int EARTH_RADIUS)"
    by (simp add: tap_inside_iff)
  have v: "spec_launch_velocity 210 120 = (0, - (31 / 16))"
    using tap_outside_launches [OF out] by (simp add: WIDTH_def HEIGHT_def)
  show ?thesis
    using tap_outside_launches [OF out, of busy_world] out
    by (simp add: v busy_fields new_Spacecraft_def)
qed

text \<open>
  C8. In every state that a run of frames reaches from the state after \<open>setup()\<close>,
  whatever the presses, each spacecraft's trail has at most 50 points and the
  Moon's trail at most 360; every frame keeps these bounds. Both trails are queues:
  the new point is appended at the end, and the first (oldest) point is dropped
  exactly when the trail was full before.
\<close>

theorem trail_caps:
  "trail_inv (frames touches after_setup) \<and>
   (trail_inv w \<longrightarrow> trail_inv (loop_body touch w)) \<and>
   moonTrail (updateMoonPosition w) =
     (if length (moonTrail w) < 360
      then moonTrail w @
             [\<lparr>vec_x = moonX (updateMoonPosition w), vec_y = moonY (updateMoonPosition w)\<rparr>]
      else tl (moonTrail w @
             [\<lparr>vec_x = moonX (updateMoonPosition w), vec_y = moonY (updateMoonPosition w)\<rparr>])) \<and>
   (\<not> dle (distToEarth (position c)) (d_of_int EARTH_RADIUS) \<and>
    \<not> dle (distToMoon w (position c)) (d_of_int MOON_RADIUS) \<longrightarrow>
      trail (fst (snd (update w c))) =
        (if length (trail c) < 50 then trail c @ [position (fst (snd (update w c)))]
         else tl (trail c @ [position (fst (snd (update w c)))])))"
  using frames_inv [OF after_setup_inv, of touches] loop_body_inv [of w touch]
    updateMoonPosition_trail [of w] update_trail_fifo [of c w]
  by simp

theorem trail_caps_witness:
  "trail_inv (frames [None, Some (10, 120), None] after_setup) \<and>
   (\<exists>c. spacecrafts (frames [Some (10, 120)] after_setup) = [c] \<and> length (trail c) = 1) \<and>
   trail_inv busy_world \<and>
   trail_inv (loop_body (Some (210, 120)) busy_world) \<and>
   \<not> dle (distToEarth (position craft_free)) (d_of_int EARTH_RADIUS) \<and>
   \<not> dle (distToMoon sample_world (position craft_free)) (d_of_int MOON_RADIUS) \<and>
   trail (fst (snd (update sample_world craft_free))) =
     [position (fst (snd (update sample_world craft_free)))]"
proof -
  have busy: "trail_inv busy_world"
    by (simp add: trail_inv_def busy_world_def new_Spacecraft_def TRAIL_LENGTH_def)
  have "trail craft_free = []"
    by (simp add: craft_free_def new_Spacecraft_def)
  then show ?thesis
    using trail_caps [of "[None, Some (10, 120), None]" busy_world "Some (210, 120)"
        craft_free]
      trail_caps [of "[]" sample_world None craft_free]
      busy sample_tests(4,5) first_frame
    by simp
qed



text \<open>
  C10. A press at distance exactly \<open>EARTH_RADIUS\<close> from the screen centre does not
  take the reset branch, whose test is strict, and a spacecraft is created at the
  press. The first \<open>update\<close> of that spacecraft, in whatever state, reports it
  destroyed and appends one explosion of size 15 at the press; the spacecraft is
  returned as it was created, no integration step having run. The spacecraft loop
  of the frame visits the new spacecraft first, so it goes on with the spacecraft
  vector as it was before the press.
\<close>

theorem tap_on_rim:
  assumes "(x - 160)\<^sup>2 + (y - 120)\<^sup>2 = 225"
  shows "\<not> dlt (dEarth x y) (d_of_int EARTH_RADIUS) \<and>
         dle (dEarth x y) (d_of_int EARTH_RADIUS) \<and>
         (\<exists>c. addSpacecraft x y w = w\<lparr>spacecrafts := spacecrafts w @ [c]\<rparr> \<and>
              position c = \<lparr>vec_x = Fin (real_of_int x), vec_y = Fin (real_of_int y)\<rparr> \<and>
              update w' c =
                (True, c,
                 w'\<lparr>explosionEffects := explosionEffects w' @
                     [\<lparr>ex_x = Fin (real_of_int x), ex_y = Fin (real_of_int y),
                       ex_size = 15, ex_life = 30, ex_alpha = Fin 255\<rparr>]\<rparr>) \<and>
              (spacecrafts w' = spacecrafts w @ [c] \<longrightarrow>
                 spacecraft_loop (length (spacecrafts w')) w' =
                   spacecraft_loop (length (spacecrafts w))
                     (w'\<lparr>explosionEffects := explosionEffects w' @
                          [\<lparr>ex_x = Fin (real_of_int x), ex_y = Fin (real_of_int y),
                            ex_size = 15, ex_life = 30, ex_alpha = Fin 255\<rparr>],
                        spacecrafts := spacecrafts w\<rparr>)))"
proof -
  let ?c = "new_Spacecraft (d_of_int x) (d_of_int y)
              (Fin (fst (spec_launch_velocity x y))) (Fin (snd (spec_launch_velocity x y)))"
  let ?boom = "\<lparr>ex_x = Fin (real_of_int x), ex_y = Fin (real_of_int y),
                 ex_size = 15, ex_life = 30, ex_alpha = Fin 255\<rparr>"
  have out: "\<not> dlt (dEarth x y) (d_of_int EARTH_RADIUS)"
    and on: "dle (dEarth x y) (d_of_int EARTH_RADIUS)"
    using assms by (simp_all add: tap_inside_iff tap_within_iff)
  have pos: "position ?c = \<lparr>vec_x = Fin (real_of_int x), vec_y = Fin (real_of_int y)\<rparr>"
    by (simp add: new_Spacecraft_def d_of_int_def)
  have hit: "dle (distToEarth (position ?c)) (d_of_int EARTH_RADIUS)"
    using on by (simp add: new_Spacecraft_def distToEarth_tap)
  then have upd: "update w' ?c = (True, ?c, w'\<lparr>explosionEffects := explosionEffects w' @ [?boom]\<rparr>)"
    by (simp add: update_def pos)
  have "spacecraft_loop (length (spacecrafts w')) w' =
          spacecraft_loop (length (spacecrafts w))
            (w'\<lparr>explosionEffects := explosionEffects w' @ [?boom],
               spacecrafts := spacecrafts w\<rparr>)"
    if "spacecrafts w' = spacecrafts w @ [?c]"
    using that upd by (simp add: erase_at_def)
  then show ?thesis
    using out on pos upd tap_outside [OF out, of w] by blast
qed

theorem tap_on_rim_witness:
  "(175 - 160 :: int)\<^sup>2 + (120 - 120)\<^sup>2 = 225 \<and>
   \<not> dlt (dEarth 175 120) (d_of_int EARTH_RADIUS) \<and>
   dle (dEarth 175 120) (d_of_int EARTH_RADIUS) \<and>
   (\<exists>c. addSpacecraft 175 120 busy_world =
          busy_world\<lparr>spacecrafts := spacecrafts busy_world @ [c]\<rparr> \<and>
        position c = \<lparr>vec_x = Fin 175, vec_y = Fin 120\<rparr> \<and>
        update (addSpacecraft 175 120 busy_world) c =
          (True, c,
           addSpacecraft 175 120 busy_world
             \<lparr>explosionEffects :=
                [\<lparr>ex_x = Fin 150, ex_y = Fin 120, ex_size = 15, ex_life = 12, ex_alpha = Fin 102\<rparr>,
                 \<lparr>ex_x = Fin 175, ex_y = Fin 120, ex_size = 15, ex_life = 30,
                   ex_alpha = Fin 255\<rparr>]\<rparr>))"
proof -
  have rim: "(175 - 160 :: int)\<^sup>2 + (120 - 120)\<^sup>2 = 225"
    by simp
  have ex: "explosionEffects (addSpacecraft 175 120 busy_world) =
      [\<lparr>ex_x = Fin 150, ex_y = Fin 120, ex_size = 15, ex_life = 12, ex_alpha = Fin 102\<rparr>]"
    by (simp add: addSpacecraft_def Let_def busy_fields)
  show ?thesis
    using tap_on_rim [OF rim, of busy_world "addSpacecraft 175 120 busy_world"] rim
    by (simp add: ex del: spacecraft_loop.simps) blast
qed

end
